theory Spec2Isabelle
  imports Main "HOL-Library.Word"
begin

unbundle bit_operations_syntax

section \<open>HDLC framing constants and the escaper\<close>

text \<open>
  Octets are 8-bit words; a Python \<open>bytes\<close> value is a list of them.
  The three class constants of \<open>HDLC\<close>.
\<close>

type_synonym byte = "8 word"
type_synonym bytes = "byte list"

definition FLAG :: byte where
  "FLAG = 0x7E"

definition ESC :: byte where
  "ESC = 0x7D"

definition ESC_MASK :: byte where
  "ESC_MASK = 0x20"

text \<open>
  \<open>data.replace(bytes([old]), new)\<close> for a pattern of one octet: every occurrence
  of \<open>old\<close>, left to right, is replaced by the sequence \<open>new\<close>.
\<close>

fun replace_byte :: "byte \<Rightarrow> bytes \<Rightarrow> bytes \<Rightarrow> bytes" where
  "replace_byte old new [] = []"
| "replace_byte old new (b # bs) =
     (if b = old then new @ replace_byte old new bs else b # replace_byte old new bs)"

text \<open>\<open>HDLC.escape\<close>: first the escape octet, then the flag octet.\<close>

definition HDLC_escape :: "bytes \<Rightarrow> bytes" where
  "HDLC_escape data =
     replace_byte FLAG [ESC, FLAG XOR ESC_MASK]
       (replace_byte ESC [ESC, ESC XOR ESC_MASK] data)"

section \<open>The interface object\<close>

text \<open>
  The fields of \<open>ReticulumOverDstar\<close> that the modelled methods read or write, and
  three observation fields for what the methods hand to their collaborators:
  \<open>inbound\<close> lists the arguments of \<open>self.owner.inbound\<close>, \<open>port_writes\<close> the
  arguments of \<open>self.serial.write\<close>, and \<open>errors_logged\<close> counts the calls of
  \<open>RNS.log\<close> at level \<open>LOG_ERROR\<close>. Python integers are unbounded.
\<close>

record interface =
  online :: bool
  rxb :: int
  txb :: int
  inbound :: "bytes list"
  port_writes :: "bytes list"
  errors_logged :: nat

definition HW_MTU :: nat where
  "HW_MTU = 700"

definition timeout :: int where
  "timeout = 100"

text \<open>
  The exceptions of the modelled methods: \<open>b64decode\<close> rejecting its input, the
  \<open>IOError\<close> of a short write (with the two numbers of its message), and an exception
  raised by \<open>serial.write\<close> itself.
\<close>

datatype error = DecodeError | IOError int nat | PortError

text \<open>
  \<open>base64.b64decode\<close> and \<open>base64.b64encode\<close> belong to the Python standard
  library, not to this program: they are parameters. A decoder returns \<open>None\<close> where
  \<open>b64decode\<close> raises.
\<close>

type_synonym decoder = "bytes \<Rightarrow> bytes option"
type_synonym encoder = "bytes \<Rightarrow> bytes"

section \<open>Incoming frames\<close>

text \<open>
  The body of the \<open>try\<close> block of \<open>process_incoming\<close>. The owner's
  \<open>inbound\<close> is taken to return.
\<close>

definition process_incoming_try :: "decoder \<Rightarrow> interface \<Rightarrow> bytes \<Rightarrow> error + interface" where
  "process_incoming_try b64decode self data =
     (case b64decode data of
        None \<Rightarrow> Inl DecodeError
      | Some binary_data \<Rightarrow>
          Inr (self\<lparr>rxb := rxb self + int (length binary_data),
                    inbound := inbound self @ [binary_data]\<rparr>))"

text \<open>
  \<open>process_incoming\<close>: the handler catches every exception and logs it, so the method
  itself always returns.
\<close>

definition process_incoming :: "decoder \<Rightarrow> interface \<Rightarrow> bytes \<Rightarrow> interface" where
  "process_incoming b64decode self data =
     (case process_incoming_try b64decode self data of
        Inl e \<Rightarrow> self\<lparr>errors_logged := Suc (errors_logged self)\<rparr>
      | Inr self' \<Rightarrow> self')"

section \<open>Outgoing packets\<close>

text \<open>
  What \<open>self.serial.write(framed_data)\<close> does is decided by the port: it returns a
  count or raises.
\<close>

datatype port_result = Written int | WriteRaises

text \<open>
  \<open>process_outgoing\<close>. The result pairs the interface after the call with how the call
  ended: \<open>Inr ()\<close> for a normal return, \<open>Inl e\<close> when \<open>e\<close> is raised to the caller
  (the handler logs and re-raises).
\<close>

definition process_outgoing ::
    "encoder \<Rightarrow> port_result \<Rightarrow> interface \<Rightarrow> bytes \<Rightarrow> interface \<times> (error + unit)" where
  "process_outgoing b64encode port self data =
     (if online self then
        (let base64_data = b64encode data;
             framed_data = [FLAG] @ HDLC_escape base64_data @ [FLAG];
             self1 = self\<lparr>port_writes := port_writes self @ [framed_data]\<rparr>
         in case port of
              WriteRaises \<Rightarrow>
                (self1\<lparr>errors_logged := Suc (errors_logged self1)\<rparr>, Inl PortError)
            | Written written \<Rightarrow>
                (let self2 = self1\<lparr>txb := txb self1 + int (length data)\<rparr>
                 in if written \<noteq> int (length framed_data)
                    then (self2\<lparr>errors_logged := Suc (errors_logged self2)\<rparr>,
                          Inl (IOError written (length framed_data)))
                    else (self2, Inr ())))
      else (self, Inr ()))"

section \<open>The read loop\<close>

text \<open>The four local variables of \<open>read_loop\<close>.\<close>

record rl_state =
  in_frame :: bool
  escape :: bool
  data_buffer :: bytes
  last_read_ms :: int

definition rl_init :: "int \<Rightarrow> rl_state" where
  "rl_init now = \<lparr>in_frame = False, escape = False, data_buffer = [], last_read_ms = now\<rparr>"

text \<open>
  The branch of the loop body that handles one octet just read. The second component is
  the argument of the call of \<open>process_incoming\<close>, when the branch makes one.
\<close>

definition read_loop_byte :: "rl_state \<Rightarrow> byte \<Rightarrow> rl_state \<times> bytes option" where
  "read_loop_byte s byte =
     (if in_frame s \<and> byte = FLAG then
        (s\<lparr>in_frame := False\<rparr>, Some (data_buffer s))
      else if byte = FLAG then
        (s\<lparr>in_frame := True, data_buffer := []\<rparr>, None)
      else if in_frame s \<and> length (data_buffer s) < HW_MTU then
        (if byte = ESC then
           (s\<lparr>escape := True\<rparr>, None)
         else if escape s then
           (let byte1 = (if byte = FLAG XOR ESC_MASK then FLAG else byte);
                byte2 = (if byte1 = ESC XOR ESC_MASK then ESC else byte1)
            in (s\<lparr>escape := False, data_buffer := data_buffer s @ [byte2]\<rparr>, None))
         else
           (s\<lparr>data_buffer := data_buffer s @ [byte]\<rparr>, None))
      else (s, None))"

text \<open>The branch of the loop body taken when no octet is waiting; \<open>now\<close> is the clock.\<close>

definition read_loop_idle :: "rl_state \<Rightarrow> int \<Rightarrow> rl_state" where
  "read_loop_idle s now =
     (let time_since_last = now - last_read_ms s
      in if length (data_buffer s) > 0 \<and> time_since_last > timeout
         then s\<lparr>data_buffer := [], in_frame := False, escape := False\<rparr>
         else s)"

text \<open>
  What one iteration of the loop meets: an octet waiting on the port (with the clock
  value taken after reading it), nothing waiting (with the clock value of the check), a
  port that is no longer open, which ends the loop, or an exception raised by the port,
  which ends it through the handler. \<open>Fault\<close> carries the value of
  \<open>RNS.Reticulum.panic_on_interface_error\<close>.
\<close>

datatype event = Rx byte int | Idle int | Closed | Fault bool

text \<open>
  \<open>read_loop\<close>, one iteration per event. When the events run out the observation ends;
  when the loop is left, \<open>online\<close> is cleared. The handler logs two errors, then
  either \<open>RNS.panic\<close> ends the process or a third error is logged. Reconnecting is not
  modelled.
\<close>

fun read_loop :: "decoder \<Rightarrow> event list \<Rightarrow> rl_state \<times> interface \<Rightarrow> rl_state \<times> interface" where
  "read_loop b64decode [] (s, self) = (s, self)"
| "read_loop b64decode (Rx byte now # evs) (s, self) =
     (case read_loop_byte (s\<lparr>last_read_ms := now\<rparr>) byte of
        (s', None) \<Rightarrow> read_loop b64decode evs (s', self)
      | (s', Some frame) \<Rightarrow> read_loop b64decode evs (s', process_incoming b64decode self frame))"
| "read_loop b64decode (Idle now # evs) (s, self) =
     read_loop b64decode evs (read_loop_idle s now, self)"
| "read_loop b64decode (Closed # evs) (s, self) = (s, self\<lparr>online := False\<rparr>)"
| "read_loop b64decode (Fault panic # evs) (s, self) =
     (s, self\<lparr>online := False,
              errors_logged := errors_logged self + (if panic then 2 else 3)\<rparr>)"

text \<open>
  The deframer on its own: the octet branch of the loop run over a sequence of octets,
  collecting the buffers handed to \<open>process_incoming\<close> in order. The clock is left
  untouched.
\<close>

fun feed :: "rl_state \<Rightarrow> bytes \<Rightarrow> rl_state \<times> bytes list" where
  "feed s [] = (s, [])"
| "feed s (b # bs) =
     (case read_loop_byte s b of
        (s', None) \<Rightarrow> feed s' bs
      | (s', Some frame) \<Rightarrow> (case feed s' bs of (s'', frames) \<Rightarrow> (s'', frame # frames)))"

section \<open>Auxiliary facts\<close>

text \<open>
  The escaper works octet by octet.
\<close>

lemma replace_byte_append:
  "replace_byte old new (xs @ ys) = replace_byte old new xs @ replace_byte old new ys"
  by (induction xs) auto

lemma HDLC_escape_Nil: "HDLC_escape [] = []"
  by (simp add: HDLC_escape_def)

lemma HDLC_escape_Cons:
  "HDLC_escape (b # bs) =
     (if b = ESC then [ESC, 0x5D] else if b = FLAG then [ESC, 0x5E] else [b]) @ HDLC_escape bs"
  by (simp add: HDLC_escape_def FLAG_def ESC_def ESC_MASK_def)

text \<open>
  An escaped sequence fed to a deframer that is inside a frame with the escape flag clear
  extends the buffer by the original octets, up to the bound \<open>HW_MTU\<close>.
\<close>

lemma feed_escape:
  "length acc \<le> HW_MTU \<Longrightarrow>
   feed \<lparr>in_frame = True, escape = False, data_buffer = acc, last_read_ms = t\<rparr> (HDLC_escape y) =
     (\<lparr>in_frame = True, escape = False, data_buffer = take HW_MTU (acc @ y), last_read_ms = t\<rparr>, [])"
proof (induction y arbitrary: acc)
  case Nil
  then show ?case by (simp add: HDLC_escape_Nil)
next
  case (Cons b bs)
  show ?case
  proof (cases "length acc < HW_MTU")
    case True
    then have le: "length (acc @ [x]) \<le> HW_MTU" for x by simp
    show ?thesis
      using True Cons.IH [OF le]
      by (simp add: HDLC_escape_Cons read_loop_byte_def FLAG_def ESC_def ESC_MASK_def)
  next
    case False
    with Cons.prems have eq: "length acc = HW_MTU" by simp
    show ?thesis
      using eq Cons.IH [OF Cons.prems]
      by (simp add: HDLC_escape_Cons read_loop_byte_def FLAG_def ESC_def ESC_MASK_def)
  qed
qed

lemma feed_append:
  "feed s (xs @ ys) =
     (case feed s xs of (s1, f1) \<Rightarrow> (case feed s1 ys of (s2, f2) \<Rightarrow> (s2, f1 @ f2)))"
  by (induction xs arbitrary: s) (auto split: prod.splits option.splits)

lemma feed_frame:
  "feed \<lparr>in_frame = False, escape = False, data_buffer = old, last_read_ms = t\<rparr>
        (FLAG # HDLC_escape y @ [FLAG]) =
     (\<lparr>in_frame = False, escape = False, data_buffer = take HW_MTU y, last_read_ms = t\<rparr>,
      [take HW_MTU y])"
  by (simp add: feed_append feed_escape read_loop_byte_def)


lemma feed_frame_idle:
  "\<not> in_frame s \<Longrightarrow> \<not> escape s \<Longrightarrow>
   feed s (FLAG # HDLC_escape y @ [FLAG]) =
     (s\<lparr>data_buffer := take HW_MTU y\<rparr>, [take HW_MTU y])"
  by (cases s) (simp add: feed_frame del: feed.simps)

text \<open>
  The loop on a run of iterations that all read an octet is the deframer on those octets,
  with every collected buffer handed to \<open>process_incoming\<close> and the clock following
  the reads.
\<close>

lemma read_loop_byte_clock:
  "read_loop_byte (s\<lparr>last_read_ms := t\<rparr>) b =
     (case read_loop_byte s b of (s', f) \<Rightarrow> (s'\<lparr>last_read_ms := t\<rparr>, f))"
  by (simp add: read_loop_byte_def Let_def)

lemma feed_clock:
  "feed (s\<lparr>last_read_ms := t\<rparr>) bs =
     (case feed s bs of (s', fs) \<Rightarrow> (s'\<lparr>last_read_ms := t\<rparr>, fs))"
proof (induction bs arbitrary: s)
  case Nil
  then show ?case by simp
next
  case (Cons b bs)
  obtain s1 f where step: "read_loop_byte s b = (s1, f)"
    by (cases "read_loop_byte s b")
  obtain s2 fs where rest: "feed s1 bs = (s2, fs)"
    by (cases "feed s1 bs")
  show ?case
    using step rest Cons.IH [of s1]
    by (cases f) (simp_all add: read_loop_byte_clock)
qed

lemma read_loop_Rx:
  "length ts = length bs \<Longrightarrow>
   read_loop dec (map2 Rx bs ts) (s, self) =
     (case feed s bs of
        (s', frames) \<Rightarrow>
          (s'\<lparr>last_read_ms := last (last_read_ms s # ts)\<rparr>,
           foldl (process_incoming dec) self frames))"
proof (induction bs arbitrary: ts s self)
  case Nil
  then show ?case by simp
next
  case (Cons b bs)
  then obtain t ts' where ts: "ts = t # ts'" and len: "length ts' = length bs"
    by (cases ts) auto
  obtain s1 f where step: "read_loop_byte s b = (s1, f)"
    by (cases "read_loop_byte s b")
  obtain s2 fs where rest: "feed s1 bs = (s2, fs)"
    by (cases "feed s1 bs")
  show ?case
  proof (cases f)
    case None
    show ?thesis
      using step rest None Cons.IH [OF len, of "s1\<lparr>last_read_ms := t\<rparr>" self]
      by (simp add: ts read_loop_byte_clock feed_clock)
  next
    case (Some fr)
    show ?thesis
      using step rest Some
        Cons.IH [OF len, of "s1\<lparr>last_read_ms := t\<rparr>" "process_incoming dec self fr"]
      by (simp add: ts read_loop_byte_clock feed_clock)
  qed
qed

text \<open>
  One iteration that reads an octet, written without binding the result of the octet
  branch: the form in which concrete runs are evaluated.
\<close>

lemma read_loop_Rx_step:
  "read_loop dec (Rx b t # evs) (s, self) =
     read_loop dec evs
       (fst (read_loop_byte (s\<lparr>last_read_ms := t\<rparr>) b),
        (case snd (read_loop_byte (s\<lparr>last_read_ms := t\<rparr>) b) of
           None \<Rightarrow> self
         | Some frame \<Rightarrow> process_incoming dec self frame))"
  by (cases "read_loop_byte (s\<lparr>last_read_ms := t\<rparr>) b") (simp split: option.split)

text \<open>
  Neither branch of the loop body lets the buffer grow beyond \<open>HW_MTU\<close>.
\<close>

lemma read_loop_byte_bound:
  "length (data_buffer s) \<le> HW_MTU \<Longrightarrow>
   length (data_buffer (fst (read_loop_byte s b))) \<le> HW_MTU"
  by (simp add: read_loop_byte_def Let_def)

lemma read_loop_idle_bound:
  "length (data_buffer s) \<le> HW_MTU \<Longrightarrow>
   length (data_buffer (read_loop_idle s now)) \<le> HW_MTU"
  by (simp add: read_loop_idle_def Let_def)

lemma read_loop_bound:
  "length (data_buffer s) \<le> HW_MTU \<Longrightarrow>
   length (data_buffer (fst (read_loop dec evs (s, self)))) \<le> HW_MTU"
proof (induction evs arbitrary: s self)
  case Nil
  then show ?case by simp
next
  case (Cons e evs)
  show ?case
  proof (cases e)
    case (Rx b t)
    from Cons.prems have "length (data_buffer (s\<lparr>last_read_ms := t\<rparr>)) \<le> HW_MTU"
      by simp
    from read_loop_byte_bound [OF this, of b] show ?thesis
      using Rx Cons.IH
      by (cases "read_loop_byte (s\<lparr>last_read_ms := t\<rparr>) b") (auto split: option.splits)
  next
    case (Idle t)
    with Cons.IH [OF read_loop_idle_bound [OF Cons.prems]] show ?thesis by simp
  next
    case Closed
    with Cons.prems show ?thesis by simp
  next
    case (Fault panic)
    with Cons.prems show ?thesis by simp
  qed
qed

text \<open>
  Outside a frame every octet other than the flag is dropped.
\<close>

lemma feed_outside_frame:
  "\<not> in_frame s \<Longrightarrow> FLAG \<notin> set bs \<Longrightarrow> feed s bs = (s, [])"
  by (induction bs) (auto simp: read_loop_byte_def)

section \<open>The deframer\<close>

text \<open>
  C1, as stated, fails. After the flag that closes the frame \<open>[0x41]\<close> the octets
  \<open>0x42\<close> and \<open>0x43\<close> are dropped: the next flag opens a frame with an empty
  buffer instead of closing a frame \<open>[0x42, 0x43]\<close>, and only \<open>[0x41]\<close> was
  handed to \<open>process_incoming\<close>.
\<close>

theorem flag_closes_frame_counterexample:
  "feed (rl_init 0) [0x7E, 0x41, 0x7E, 0x42, 0x43, 0x7E] =
     (\<lparr>in_frame = True, escape = False, data_buffer = [], last_read_ms = 0\<rparr>, [[0x41]])"
  by (simp add: rl_init_def read_loop_byte_def FLAG_def ESC_def HW_MTU_def)

text \<open>
  C1, amended. Inside a frame, the flag octet hands the buffer to \<open>process_incoming\<close>
  and leaves the deframer outside any frame. Octets other than the flag that arrive next
  are dropped, the state staying as it is, and the next flag opens a new frame with a
  cleared buffer.
\<close>

theorem flag_closes_frame_to_idle:
  "in_frame s \<Longrightarrow>
   read_loop_byte s FLAG = (s\<lparr>in_frame := False\<rparr>, Some (data_buffer s)) \<and>
   (FLAG \<notin> set bs \<longrightarrow> feed (s\<lparr>in_frame := False\<rparr>) bs = (s\<lparr>in_frame := False\<rparr>, [])) \<and>
   read_loop_byte (s\<lparr>in_frame := False\<rparr>) FLAG =
     (s\<lparr>in_frame := True, data_buffer := []\<rparr>, None)"
  by (simp add: feed_outside_frame) (simp add: read_loop_byte_def)

text \<open>
  An instance: the frame \<open>[0x41]\<close> is closed, \<open>0x42\<close> and \<open>0x43\<close> are
  dropped, the next flag opens a frame.
\<close>

theorem flag_closes_frame_to_idle_witness:
  "in_frame \<lparr>in_frame = True, escape = False, data_buffer = [0x41], last_read_ms = 0\<rparr> \<and>
   read_loop_byte \<lparr>in_frame = True, escape = False, data_buffer = [0x41], last_read_ms = 0\<rparr> FLAG =
     (\<lparr>in_frame = False, escape = False, data_buffer = [0x41], last_read_ms = 0\<rparr>, Some [0x41]) \<and>
   FLAG \<notin> set [0x42, 0x43] \<and>
   feed \<lparr>in_frame = False, escape = False, data_buffer = [0x41], last_read_ms = 0\<rparr> [0x42, 0x43] =
     (\<lparr>in_frame = False, escape = False, data_buffer = [0x41], last_read_ms = 0\<rparr>, []) \<and>
   read_loop_byte \<lparr>in_frame = False, escape = False, data_buffer = [0x41], last_read_ms = 0\<rparr> FLAG =
     (\<lparr>in_frame = True, escape = False, data_buffer = [], last_read_ms = 0\<rparr>, None)"
proof -
  have h: "in_frame \<lparr>in_frame = True, escape = False, data_buffer = [0x41], last_read_ms = 0\<rparr>"
    by simp
  have f: "FLAG \<notin> set [0x42, 0x43]"
    by (simp add: FLAG_def)
  from flag_closes_frame_to_idle [OF h, of "[0x42, 0x43]"] h f show ?thesis
    by simp
qed

text \<open>
  C2, as stated, fails at the two reserved octets. With the escape flag set, a raw flag
  octet closes the frame (the buffer \<open>[0x41]\<close> is handed over, nothing is appended),
  and a second escape octet is not stored either.
\<close>

theorem escaped_octet_counterexample:
  "feed (rl_init 0) [0x7E, 0x41, 0x7D, 0x7E] =
     (\<lparr>in_frame = False, escape = True, data_buffer = [0x41], last_read_ms = 0\<rparr>, [[0x41]]) \<and>
   feed (rl_init 0) [0x7E, 0x41, 0x7D, 0x7D] =
     (\<lparr>in_frame = True, escape = True, data_buffer = [0x41], last_read_ms = 0\<rparr>, [])"
  by (simp add: rl_init_def read_loop_byte_def FLAG_def ESC_def HW_MTU_def)

text \<open>
  C2, amended. Inside a frame with the escape flag set and the buffer below
  \<open>HW_MTU\<close>, every octet other than the flag and the escape octet is unmasked
  (\<open>0x5E\<close> gives \<open>0x7E\<close>, \<open>0x5D\<close> gives \<open>0x7D\<close>, any other octet is
  kept), appended to the buffer, and the escape flag is cleared.
\<close>

theorem escaped_octet_unmasked:
  "in_frame s \<Longrightarrow> escape s \<Longrightarrow> length (data_buffer s) < HW_MTU \<Longrightarrow>
   b \<noteq> FLAG \<Longrightarrow> b \<noteq> ESC \<Longrightarrow>
   read_loop_byte s b =
     (s\<lparr>escape := False,
        data_buffer := data_buffer s @
          [if b = FLAG XOR ESC_MASK then FLAG else if b = ESC XOR ESC_MASK then ESC else b]\<rparr>,
      None)"
  by (simp add: read_loop_byte_def FLAG_def ESC_def ESC_MASK_def)

text \<open>
  An instance: \<open>0x5E\<close> after an escape octet restores \<open>0x7E\<close>.
\<close>

theorem escaped_octet_unmasked_witness:
  "in_frame \<lparr>in_frame = True, escape = True, data_buffer = [0x41], last_read_ms = 0\<rparr> \<and>
   escape \<lparr>in_frame = True, escape = True, data_buffer = [0x41], last_read_ms = 0\<rparr> \<and>
   length (data_buffer \<lparr>in_frame = True, escape = True, data_buffer = [0x41], last_read_ms = 0\<rparr>)
     < HW_MTU \<and>
   (0x5E :: byte) \<noteq> FLAG \<and> (0x5E :: byte) \<noteq> ESC \<and>
   read_loop_byte \<lparr>in_frame = True, escape = True, data_buffer = [0x41], last_read_ms = 0\<rparr> 0x5E =
     (\<lparr>in_frame = True, escape = False, data_buffer = [0x41, 0x7E], last_read_ms = 0\<rparr>, None)"
proof -
  let ?s = "\<lparr>in_frame = True, escape = True, data_buffer = [0x41 :: byte], last_read_ms = 0\<rparr>"
  have h1: "in_frame ?s" and h2: "escape ?s" by simp_all
  have h3: "length (data_buffer ?s) < HW_MTU" by (simp add: HW_MTU_def)
  have h4: "(0x5E :: byte) \<noteq> FLAG" by (simp add: FLAG_def)
  have h5: "(0x5E :: byte) \<noteq> ESC" by (simp add: ESC_def)
  from escaped_octet_unmasked [OF h1 h2 h3 h4 h5] h3 h4 h5 show ?thesis
    by (simp add: FLAG_def ESC_def ESC_MASK_def)
qed

text \<open>
  C3. Whatever the loop meets, starting from its initial state, the buffer never holds
  more than \<open>HW_MTU\<close> octets. Inside a frame with the buffer at the bound, an octet
  other than the flag changes nothing (it is dropped and the deframer stays inside the
  frame), and the flag still closes the frame, handing over the buffer. A frame whose
  content is longer than the bound is therefore handed over cut to its first
  \<open>HW_MTU\<close> octets.
\<close>

theorem buffer_never_exceeds_mtu:
  "length (data_buffer (fst (read_loop b64decode evs (rl_init now, self)))) \<le> HW_MTU \<and>
   (in_frame s \<and> length (data_buffer s) = HW_MTU \<longrightarrow>
      (b \<noteq> FLAG \<longrightarrow> read_loop_byte s b = (s, None)) \<and>
      read_loop_byte s FLAG = (s\<lparr>in_frame := False\<rparr>, Some (data_buffer s))) \<and>
   snd (feed (rl_init now) (FLAG # HDLC_escape y @ [FLAG])) = [take HW_MTU y]"
proof -
  have "length (data_buffer (rl_init now)) \<le> HW_MTU"
    by (simp add: rl_init_def)
  then have a: "length (data_buffer (fst (read_loop b64decode evs (rl_init now, self)))) \<le> HW_MTU"
    by (rule read_loop_bound)
  have b: "in_frame s \<and> length (data_buffer s) = HW_MTU \<longrightarrow>
      (b \<noteq> FLAG \<longrightarrow> read_loop_byte s b = (s, None)) \<and>
      read_loop_byte s FLAG = (s\<lparr>in_frame := False\<rparr>, Some (data_buffer s))"
    by (simp add: read_loop_byte_def)
  have c: "snd (feed (rl_init now) (FLAG # HDLC_escape y @ [FLAG])) = [take HW_MTU y]"
    by (simp only: rl_init_def feed_frame snd_conv)
  from a b c show ?thesis by blast
qed

text \<open>
  An instance: a run with two frames and an idle reset, a buffer of 700 octets, and a
  frame of 701 octets cut to 700.
\<close>

theorem buffer_never_exceeds_mtu_witness:
  "length (data_buffer (fst (read_loop Some
       [Rx 0x7E 1, Rx 0x41 2, Idle 200, Rx 0x42 201, Rx 0x7E 202, Rx 0x43 203, Rx 0x7E 204]
       (rl_init 0, \<lparr>online = True, rxb = 0, txb = 0, inbound = [], port_writes = [],
                    errors_logged = 0\<rparr>)))) \<le> HW_MTU \<and>
   in_frame \<lparr>in_frame = True, escape = False, data_buffer = replicate 700 0x41, last_read_ms = 0\<rparr> \<and>
   length (data_buffer
     \<lparr>in_frame = True, escape = False, data_buffer = replicate 700 (0x41 :: byte), last_read_ms = 0\<rparr>)
     = HW_MTU \<and>
   (0x42 :: byte) \<noteq> FLAG \<and>
   read_loop_byte
     \<lparr>in_frame = True, escape = False, data_buffer = replicate 700 0x41, last_read_ms = 0\<rparr> 0x42 =
     (\<lparr>in_frame = True, escape = False, data_buffer = replicate 700 0x41, last_read_ms = 0\<rparr>, None) \<and>
   read_loop_byte
     \<lparr>in_frame = True, escape = False, data_buffer = replicate 700 0x41, last_read_ms = 0\<rparr> FLAG =
     (\<lparr>in_frame = False, escape = False, data_buffer = replicate 700 0x41, last_read_ms = 0\<rparr>,
      Some (replicate 700 0x41)) \<and>
   snd (feed (rl_init 0) (FLAG # HDLC_escape (replicate 701 0x41) @ [FLAG])) = [replicate 700 0x41]"
proof -
  let ?s = "\<lparr>in_frame = True, escape = False, data_buffer = replicate 700 (0x41 :: byte),
             last_read_ms = 0\<rparr>"
  have h1: "in_frame ?s" by simp
  have h2: "length (data_buffer ?s) = HW_MTU" by (simp add: HW_MTU_def)
  have h3: "(0x42 :: byte) \<noteq> FLAG" by (simp add: FLAG_def)
  from buffer_never_exceeds_mtu [of Some
       "[Rx 0x7E 1, Rx 0x41 2, Idle 200, Rx 0x42 201, Rx 0x7E 202, Rx 0x43 203, Rx 0x7E 204]"
       0 "\<lparr>online = True, rxb = 0, txb = 0, inbound = [], port_writes = [], errors_logged = 0\<rparr>"
       ?s "0x42" "replicate 701 0x41"] h1 h2 h3
  show ?thesis
    by (simp add: HW_MTU_def)
qed


text \<open>
  C4, as stated, fails for a sequence longer than \<open>HW_MTU\<close>: of 701 octets
  \<open>0x41\<close> only the first 700 reach the completed frame.
\<close>

theorem escape_roundtrip_counterexample:
  "feed (rl_init 0) (FLAG # HDLC_escape (replicate 701 0x41) @ [FLAG]) =
     (\<lparr>in_frame = False, escape = False, data_buffer = replicate 700 0x41, last_read_ms = 0\<rparr>,
      [replicate 700 0x41]) \<and>
   replicate 700 (0x41 :: byte) \<noteq> replicate 701 0x41"
  by (simp add: rl_init_def feed_frame HW_MTU_def del: feed.simps)

text \<open>
  C4, amended. For every octet sequence \<open>y\<close> of at most \<open>HW_MTU\<close> octets, the
  deframer outside a frame with the escape flag clear (as in its initial state), fed the
  flag, then \<open>escape(y)\<close> one octet at a time, then the flag, completes exactly one
  frame, and its buffer is \<open>y\<close>.
\<close>

theorem escape_roundtrip_within_mtu:
  "\<not> in_frame s \<Longrightarrow> \<not> escape s \<Longrightarrow> length y \<le> HW_MTU \<Longrightarrow>
   feed s (FLAG # HDLC_escape y @ [FLAG]) = (s\<lparr>data_buffer := y\<rparr>, [y])"
  by (simp add: feed_frame_idle del: feed.simps)

text \<open>An instance from the initial state, with both reserved octets in the payload.\<close>

theorem escape_roundtrip_within_mtu_witness:
  "\<not> in_frame (rl_init 0) \<and> \<not> escape (rl_init 0) \<and>
   length [0x41, 0x7E, 0x7D, 0x42 :: byte] \<le> HW_MTU \<and>
   feed (rl_init 0) [0x7E, 0x41, 0x7D, 0x5E, 0x7D, 0x5D, 0x42, 0x7E] =
     (\<lparr>in_frame = False, escape = False, data_buffer = [0x41, 0x7E, 0x7D, 0x42],
        last_read_ms = 0\<rparr>,
      [[0x41, 0x7E, 0x7D, 0x42]])"
proof -
  have h1: "\<not> in_frame (rl_init 0)" and h2: "\<not> escape (rl_init 0)"
    by (simp_all add: rl_init_def)
  have h3: "length [0x41, 0x7E, 0x7D, 0x42 :: byte] \<le> HW_MTU"
    by (simp add: HW_MTU_def)
  have e: "FLAG # HDLC_escape [0x41, 0x7E, 0x7D, 0x42] @ [FLAG] =
      [0x7E, 0x41, 0x7D, 0x5E, 0x7D, 0x5D, 0x42, 0x7E]"
    by (simp add: HDLC_escape_def FLAG_def ESC_def ESC_MASK_def)
  have r: "(rl_init 0)\<lparr>data_buffer := [0x41, 0x7E, 0x7D, 0x42]\<rparr> =
      \<lparr>in_frame = False, escape = False, data_buffer = [0x41, 0x7E, 0x7D, 0x42],
         last_read_ms = 0\<rparr>"
    by (simp add: rl_init_def)
  from escape_roundtrip_within_mtu [OF h1 h2 h3] h1 h2 h3 show ?thesis
    by (simp only: e r simp_thms)
qed

text \<open>
  C5, as stated, fails. Two flags in a row hand the empty buffer to
  \<open>process_incoming\<close>: there is no check for emptiness.
\<close>

theorem empty_frame_counterexample:
  "feed (rl_init 0) [0x7E, 0x7E] =
     (\<lparr>in_frame = False, escape = False, data_buffer = [], last_read_ms = 0\<rparr>, [[]])"
  by (simp add: rl_init_def read_loop_byte_def FLAG_def)

text \<open>
  C5, amended. Inside a frame, the flag octet always hands the buffer to
  \<open>process_incoming\<close>, empty or not, and \<open>process_incoming\<close> delivers the decoded
  payload to the owner exactly when \<open>b64decode\<close> accepts the buffer.
\<close>

theorem closing_flag_always_processes:
  "in_frame s \<Longrightarrow>
   read_loop b64decode (Rx FLAG now # evs) (s, self) =
     read_loop b64decode evs
       (s\<lparr>last_read_ms := now, in_frame := False\<rparr>,
        process_incoming b64decode self (data_buffer s)) \<and>
   inbound (process_incoming b64decode self data) =
     (case b64decode data of
        None \<Rightarrow> inbound self
      | Some binary_data \<Rightarrow> inbound self @ [binary_data])"
  by (simp add: read_loop_byte_def process_incoming_def process_incoming_try_def
      split: option.split)

text \<open>
  An instance: with a decoder that accepts the empty buffer, the empty payload is
  delivered.
\<close>

theorem closing_flag_always_processes_witness:
  "in_frame \<lparr>in_frame = True, escape = False, data_buffer = [], last_read_ms = 0\<rparr> \<and>
   read_loop Some [Rx FLAG 5]
     (\<lparr>in_frame = True, escape = False, data_buffer = [], last_read_ms = 0\<rparr>,
      \<lparr>online = True, rxb = 0, txb = 0, inbound = [], port_writes = [], errors_logged = 0\<rparr>) =
     (\<lparr>in_frame = False, escape = False, data_buffer = [], last_read_ms = 5\<rparr>,
      \<lparr>online = True, rxb = 0, txb = 0, inbound = [[]], port_writes = [], errors_logged = 0\<rparr>)"
proof -
  have h: "in_frame \<lparr>in_frame = True, escape = False, data_buffer = [], last_read_ms = 0\<rparr>"
    by simp
  from closing_flag_always_processes [OF h, of Some 5 "[]"
      "\<lparr>online = True, rxb = 0, txb = 0, inbound = [], port_writes = [], errors_logged = 0\<rparr>" "[]"]
  show ?thesis
    by (simp add: process_incoming_def process_incoming_try_def)
qed

text \<open>
  C6, as stated, fails. The staleness test is made only by an iteration that finds
  nothing to read, and such iterations are 80 ms apart. Here a frame is opened and
  \<open>QUJD\<close> is read by 4 ms; the idle checks at 5 ms and 85 ms see 1 ms and 81 ms, not
  more than \<open>timeout\<close>; the next octets are read from 165 ms on, 161 ms after the last
  read. Nothing was reset: the flag of the fresh frame closes the stale one, whose content
  is delivered (\<open>base64.b64decode(b'QUJD')\<close> is \<open>b'ABC'\<close>), the octets \<open>REVG\<close> of
  the fresh frame are dropped outside a frame, and its closing flag opens an empty frame.
\<close>

theorem stale_buffer_unobserved_counterexample:
  "read_loop
     (map_of [([0x51, 0x55, 0x4A, 0x44], [0x41, 0x42, 0x43]),
              ([0x52, 0x45, 0x56, 0x47], [0x44, 0x45, 0x46])])
     [Rx 0x7E 0, Rx 0x51 1, Rx 0x55 2, Rx 0x4A 3, Rx 0x44 4, Idle 5, Idle 85,
      Rx 0x7E 165, Rx 0x52 166, Rx 0x45 167, Rx 0x56 168, Rx 0x47 169, Rx 0x7E 170]
     (rl_init 0,
      \<lparr>online = True, rxb = 0, txb = 0, inbound = [], port_writes = [], errors_logged = 0\<rparr>) =
     (\<lparr>in_frame = True, escape = False, data_buffer = [], last_read_ms = 170\<rparr>,
      \<lparr>online = True, rxb = 3, txb = 0, inbound = [[0x41, 0x42, 0x43]], port_writes = [],
         errors_logged = 0\<rparr>)"
  by (simp add: read_loop_Rx_step rl_init_def read_loop_byte_def read_loop_idle_def timeout_def
      process_incoming_def process_incoming_try_def FLAG_def ESC_def HW_MTU_def
      del: read_loop.simps(2))

text \<open>
  C6, amended. When the buffer is not empty and an iteration with nothing to read finds
  the clock more than \<open>timeout\<close> past the last read, the buffer is cleared and both
  flags are reset, whatever they were. A complete frame that follows (flag,
  \<open>escape(y)\<close>, flag, with \<open>y\<close> within the bound) is then parsed as \<open>y\<close> and is
  the only buffer handed to \<open>process_incoming\<close>: the stale octets are never handed
  over.
\<close>

theorem stale_buffer_reset:
  assumes "data_buffer s \<noteq> []"
    and "now - last_read_ms s > timeout"
    and "length y \<le> HW_MTU"
    and "length ts = length (FLAG # HDLC_escape y @ [FLAG])"
  shows "read_loop_idle s now = s\<lparr>data_buffer := [], in_frame := False, escape := False\<rparr> \<and>
         read_loop b64decode (Idle now # map2 Rx (FLAG # HDLC_escape y @ [FLAG]) ts) (s, self) =
           (\<lparr>in_frame = False, escape = False, data_buffer = y, last_read_ms = last ts\<rparr>,
            process_incoming b64decode self y)"
proof -
  let ?r = "s\<lparr>data_buffer := [], in_frame := False, escape := False\<rparr>"
  have idle: "read_loop_idle s now = ?r"
    using assms(1,2) by (simp add: read_loop_idle_def)
  have fd: "feed ?r (FLAG # HDLC_escape y @ [FLAG]) = (?r\<lparr>data_buffer := y\<rparr>, [y])"
    using feed_frame_idle [of ?r y] assms(3) by simp
  from assms(4) have ne: "ts \<noteq> []" by auto
  have "read_loop b64decode (Idle now # map2 Rx (FLAG # HDLC_escape y @ [FLAG]) ts) (s, self) =
        read_loop b64decode (map2 Rx (FLAG # HDLC_escape y @ [FLAG]) ts) (?r, self)"
    by (simp only: read_loop.simps idle)
  also have "\<dots> = (?r\<lparr>data_buffer := y\<rparr>\<lparr>last_read_ms := last (last_read_ms ?r # ts)\<rparr>,
                    foldl (process_incoming b64decode) self [y])"
    by (simp only: read_loop_Rx [OF assms(4)] fd prod.case)
  also have "\<dots> = (\<lparr>in_frame = False, escape = False, data_buffer = y, last_read_ms = last ts\<rparr>,
                    process_incoming b64decode self y)"
    using ne by simp
  finally show ?thesis using idle by simp
qed

text \<open>
  An instance: three stale octets with the escape flag pending, an idle check 190 ms
  after the last read, then a frame carrying \<open>QUJD\<close>, which the decoder takes to
  \<open>ABC\<close> as \<open>base64.b64decode\<close> does.
\<close>

theorem stale_buffer_reset_witness:
  "data_buffer \<lparr>in_frame = True, escape = True, data_buffer = [0x51, 0x55, 0x4A], last_read_ms = 10\<rparr>
     \<noteq> [] \<and>
   200 - last_read_ms
     \<lparr>in_frame = True, escape = True, data_buffer = [0x51, 0x55, 0x4A :: byte], last_read_ms = 10\<rparr>
     > timeout \<and>
   length [0x51, 0x55, 0x4A, 0x44 :: byte] \<le> HW_MTU \<and>
   read_loop (map_of [([0x51, 0x55, 0x4A, 0x44], [0x41, 0x42, 0x43])])
     [Idle 200, Rx 0x7E 300, Rx 0x51 301, Rx 0x55 302, Rx 0x4A 303, Rx 0x44 304, Rx 0x7E 305]
     (\<lparr>in_frame = True, escape = True, data_buffer = [0x51, 0x55, 0x4A], last_read_ms = 10\<rparr>,
      \<lparr>online = True, rxb = 0, txb = 0, inbound = [], port_writes = [], errors_logged = 0\<rparr>) =
     (\<lparr>in_frame = False, escape = False, data_buffer = [0x51, 0x55, 0x4A, 0x44],
        last_read_ms = 305\<rparr>,
      \<lparr>online = True, rxb = 3, txb = 0, inbound = [[0x41, 0x42, 0x43]], port_writes = [],
         errors_logged = 0\<rparr>)"
proof -
  let ?dec = "map_of [([0x51, 0x55, 0x4A, 0x44 :: byte], [0x41, 0x42, 0x43 :: byte])]"
  let ?s = "\<lparr>in_frame = True, escape = True, data_buffer = [0x51, 0x55, 0x4A :: byte],
             last_read_ms = 10\<rparr>"
  let ?self = "\<lparr>online = True, rxb = 0, txb = 0, inbound = [], port_writes = [],
                errors_logged = 0\<rparr>"
  have e: "FLAG # HDLC_escape [0x51, 0x55, 0x4A, 0x44] @ [FLAG] =
      [0x7E, 0x51, 0x55, 0x4A, 0x44, 0x7E]"
    by (simp add: HDLC_escape_def FLAG_def ESC_def ESC_MASK_def)
  have h1: "data_buffer ?s \<noteq> []" by simp
  have h2: "200 - last_read_ms ?s > timeout" by (simp add: timeout_def)
  have h3: "length [0x51, 0x55, 0x4A, 0x44 :: byte] \<le> HW_MTU" by (simp add: HW_MTU_def)
  have h4: "length [300, 301, 302, 303, 304, 305 :: int] =
      length (FLAG # HDLC_escape [0x51, 0x55, 0x4A, 0x44] @ [FLAG])"
    by (simp only: e) simp
  have p: "process_incoming ?dec ?self [0x51, 0x55, 0x4A, 0x44] =
      \<lparr>online = True, rxb = 3, txb = 0, inbound = [[0x41, 0x42, 0x43]], port_writes = [],
         errors_logged = 0\<rparr>"
    by (simp add: process_incoming_def process_incoming_try_def)
  from stale_buffer_reset [OF h1 h2 h3 h4, of ?dec ?self] h1 h2 h3
  show ?thesis
    by (simp add: e p del: read_loop.simps map_of.simps)
qed

section \<open>Outgoing path\<close>

text \<open>
  C7. For every payload, \<open>process_outgoing\<close> hands to the port exactly
  \<open>FLAG || escape(b64encode(payload)) || FLAG\<close> when the interface is online, and makes
  no write at all when it is not.
\<close>

theorem process_outgoing_writes_frame:
  "port_writes (fst (process_outgoing b64encode port self data)) =
     (if online self
      then port_writes self @ [FLAG # HDLC_escape (b64encode data) @ [FLAG]]
      else port_writes self)"
  by (simp add: process_outgoing_def Let_def split: port_result.split)

text \<open>
  C8. When the interface is online and the port reports fewer octets written than the
  framed data holds, \<open>process_outgoing\<close> ends by raising the \<open>IOError\<close> to its
  caller, and \<open>online\<close> is what it was before the call.
\<close>

theorem short_write_raises:
  "online self \<Longrightarrow>
   written < int (length (FLAG # HDLC_escape (b64encode data) @ [FLAG])) \<Longrightarrow>
   snd (process_outgoing b64encode (Written written) self data) =
     Inl (IOError written (length (FLAG # HDLC_escape (b64encode data) @ [FLAG]))) \<and>
   online (fst (process_outgoing b64encode (Written written) self data)) = online self"
  by (simp add: process_outgoing_def Let_def)

text \<open>An instance: three of five octets written.\<close>

theorem short_write_raises_witness:
  "online \<lparr>online = True, rxb = 0, txb = 0, inbound = [], port_writes = [], errors_logged = 0\<rparr> \<and>
   (3 :: int) < int (length (FLAG # HDLC_escape (id [0x51, 0x55, 0x4A]) @ [FLAG])) \<and>
   snd (process_outgoing id (Written 3)
     \<lparr>online = True, rxb = 0, txb = 0, inbound = [], port_writes = [], errors_logged = 0\<rparr>
     [0x51, 0x55, 0x4A]) = Inl (IOError 3 5) \<and>
   online (fst (process_outgoing id (Written 3)
     \<lparr>online = True, rxb = 0, txb = 0, inbound = [], port_writes = [], errors_logged = 0\<rparr>
     [0x51, 0x55, 0x4A]))"
proof -
  let ?self = "\<lparr>online = True, rxb = 0, txb = 0, inbound = [], port_writes = [],
                errors_logged = 0\<rparr>"
  have e: "HDLC_escape [0x51, 0x55, 0x4A] = [0x51, 0x55, 0x4A]"
    by (simp add: HDLC_escape_def FLAG_def ESC_def)
  have h1: "online ?self" by simp
  have h2: "(3 :: int) < int (length (FLAG # HDLC_escape (id [0x51, 0x55, 0x4A]) @ [FLAG]))"
    by (simp add: e)
  from short_write_raises [where ?b64encode = id and data = "[0x51, 0x55, 0x4A]", OF h1 h2] h2
  show ?thesis
    by (simp add: e)
qed

section \<open>Decoding failures\<close>

text \<open>
  C9, as stated, fails for a frame with an octet outside the alphabet. The program calls
  \<open>base64.b64decode\<close> in its default mode, which discards such octets instead of
  raising: \<open>base64.b64decode(b'QUJD!')\<close> is \<open>b'ABC'\<close>. With that answer for the
  decoder, the frame \<open>QUJD!\<close> is not dropped: \<open>ABC\<close> reaches the owner and no error
  is logged.
\<close>

theorem wrong_alphabet_counterexample:
  "read_loop (map_of [([0x51, 0x55, 0x4A, 0x44, 0x21], [0x41, 0x42, 0x43])])
     [Rx 0x7E 0, Rx 0x51 1, Rx 0x55 2, Rx 0x4A 3, Rx 0x44 4, Rx 0x21 5, Rx 0x7E 6]
     (rl_init 0,
      \<lparr>online = True, rxb = 0, txb = 0, inbound = [], port_writes = [], errors_logged = 0\<rparr>) =
     (\<lparr>in_frame = False, escape = False, data_buffer = [0x51, 0x55, 0x4A, 0x44, 0x21],
        last_read_ms = 6\<rparr>,
      \<lparr>online = True, rxb = 3, txb = 0, inbound = [[0x41, 0x42, 0x43]], port_writes = [],
         errors_logged = 0\<rparr>)"
  by (simp add: read_loop_Rx_step rl_init_def read_loop_byte_def process_incoming_def
      process_incoming_try_def FLAG_def ESC_def HW_MTU_def del: read_loop.simps(2))

text \<open>
  C9, amended. When \<open>b64decode\<close> raises on the buffer of a completed frame, the body of
  \<open>process_incoming\<close> fails with the decoding error, \<open>process_incoming\<close> itself
  returns with nothing delivered to the owner and the byte counter unchanged (the error
  is only logged), and the read loop goes on with the iterations that follow.
\<close>

theorem decode_failure_drops_frame:
  "b64decode data = None \<Longrightarrow>
   process_incoming_try b64decode self data = Inl DecodeError \<and>
   process_incoming b64decode self data = self\<lparr>errors_logged := Suc (errors_logged self)\<rparr> \<and>
   inbound (process_incoming b64decode self data) = inbound self \<and>
   rxb (process_incoming b64decode self data) = rxb self \<and>
   (in_frame s \<and> data_buffer s = data \<longrightarrow>
      read_loop b64decode (Rx FLAG now # evs) (s, self) =
        read_loop b64decode evs
          (s\<lparr>last_read_ms := now, in_frame := False\<rparr>,
           self\<lparr>errors_logged := Suc (errors_logged self)\<rparr>))"
  by (simp add: read_loop_byte_def process_incoming_def process_incoming_try_def)

text \<open>
  An instance with the answers of \<open>base64.b64decode\<close>: it raises on \<open>QUJ\<close>
  (incorrect padding) and takes \<open>QUJD\<close> to \<open>ABC\<close>. The frame \<open>QUJ\<close> is dropped
  and the frame after it is delivered.
\<close>

theorem decode_failure_drops_frame_witness:
  "map_of [([0x51, 0x55, 0x4A, 0x44 :: byte], [0x41, 0x42, 0x43 :: byte])] [0x51, 0x55, 0x4A] = None \<and>
   in_frame \<lparr>in_frame = True, escape = False, data_buffer = [0x51, 0x55, 0x4A], last_read_ms = 0\<rparr> \<and>
   read_loop (map_of [([0x51, 0x55, 0x4A, 0x44], [0x41, 0x42, 0x43])])
     [Rx FLAG 1, Rx 0x7E 2, Rx 0x51 3, Rx 0x55 4, Rx 0x4A 5, Rx 0x44 6, Rx 0x7E 7]
     (\<lparr>in_frame = True, escape = False, data_buffer = [0x51, 0x55, 0x4A], last_read_ms = 0\<rparr>,
      \<lparr>online = True, rxb = 0, txb = 0, inbound = [], port_writes = [], errors_logged = 0\<rparr>) =
     (\<lparr>in_frame = False, escape = False, data_buffer = [0x51, 0x55, 0x4A, 0x44],
        last_read_ms = 7\<rparr>,
      \<lparr>online = True, rxb = 3, txb = 0, inbound = [[0x41, 0x42, 0x43]], port_writes = [],
         errors_logged = 1\<rparr>)"
proof -
  let ?dec = "map_of [([0x51, 0x55, 0x4A, 0x44 :: byte], [0x41, 0x42, 0x43 :: byte])]"
  let ?s = "\<lparr>in_frame = True, escape = False, data_buffer = [0x51, 0x55, 0x4A :: byte],
             last_read_ms = 0\<rparr>"
  let ?self = "\<lparr>online = True, rxb = 0, txb = 0, inbound = [], port_writes = [],
                errors_logged = 0\<rparr>"
  let ?evs = "[Rx 0x7E 2, Rx 0x51 3, Rx 0x55 4, Rx 0x4A 5, Rx 0x44 6, Rx 0x7E 7]"
  have h: "?dec [0x51, 0x55, 0x4A] = None" by simp
  have st: "in_frame ?s \<and> data_buffer ?s = [0x51, 0x55, 0x4A]" by simp
  from decode_failure_drops_frame [where ?b64decode = ?dec and data = "[0x51, 0x55, 0x4A]"
      and self = ?self and s = ?s and now = 1 and evs = ?evs, OF h] st
  have first: "read_loop ?dec (Rx FLAG 1 # ?evs) (?s, ?self) =
      read_loop ?dec ?evs
        (\<lparr>in_frame = False, escape = False, data_buffer = [0x51, 0x55, 0x4A], last_read_ms = 1\<rparr>,
         \<lparr>online = True, rxb = 0, txb = 0, inbound = [], port_writes = [], errors_logged = 1\<rparr>)"
    by (simp del: read_loop.simps map_of.simps)
  have rest: "read_loop ?dec ?evs
        (\<lparr>in_frame = False, escape = False, data_buffer = [0x51, 0x55, 0x4A], last_read_ms = 1\<rparr>,
         \<lparr>online = True, rxb = 0, txb = 0, inbound = [], port_writes = [], errors_logged = 1\<rparr>) =
      (\<lparr>in_frame = False, escape = False, data_buffer = [0x51, 0x55, 0x4A, 0x44],
         last_read_ms = 7\<rparr>,
       \<lparr>online = True, rxb = 3, txb = 0, inbound = [[0x41, 0x42, 0x43]], port_writes = [],
          errors_logged = 1\<rparr>)"
    by (simp add: read_loop_Rx_step read_loop_byte_def process_incoming_def
        process_incoming_try_def FLAG_def ESC_def HW_MTU_def del: read_loop.simps(2))
  from st have fr: "in_frame ?s" by simp
  from h fr first rest show ?thesis
    by (simp only: simp_thms)
qed

section \<open>The transmit counter\<close>

text \<open>
  C10. When the interface is online and the write is short, \<open>txb\<close> has grown by the
  length of the raw payload although \<open>process_outgoing\<close> raises: for a payload that is
  not empty the failed call leaves the counter changed.
\<close>

theorem short_write_counts_payload:
  "online self \<Longrightarrow>
   written < int (length (FLAG # HDLC_escape (b64encode data) @ [FLAG])) \<Longrightarrow>
   txb (fst (process_outgoing b64encode (Written written) self data)) =
     txb self + int (length data) \<and>
   (\<exists>e. snd (process_outgoing b64encode (Written written) self data) = Inl e) \<and>
   (data \<noteq> [] \<longrightarrow>
      txb (fst (process_outgoing b64encode (Written written) self data)) \<noteq> txb self)"
  by (simp add: process_outgoing_def Let_def)

text \<open>
  An instance: a payload of three octets whose encoding is four octets long, two of the
  six framed octets written.
\<close>

theorem short_write_counts_payload_witness:
  "online \<lparr>online = True, rxb = 0, txb = 10, inbound = [], port_writes = [], errors_logged = 0\<rparr> \<and>
   (2 :: int) < int (length (FLAG # HDLC_escape ((\<lambda>d. [0x51, 0x55, 0x4A, 0x44]) [0x41, 0x42, 0x43])
                       @ [FLAG])) \<and>
   txb (fst (process_outgoing (\<lambda>d. [0x51, 0x55, 0x4A, 0x44]) (Written 2)
     \<lparr>online = True, rxb = 0, txb = 10, inbound = [], port_writes = [], errors_logged = 0\<rparr>
     [0x41, 0x42, 0x43])) = 13 \<and>
   snd (process_outgoing (\<lambda>d. [0x51, 0x55, 0x4A, 0x44]) (Written 2)
     \<lparr>online = True, rxb = 0, txb = 10, inbound = [], port_writes = [], errors_logged = 0\<rparr>
     [0x41, 0x42, 0x43]) = Inl (IOError 2 6)"
proof -
  let ?self = "\<lparr>online = True, rxb = 0, txb = 10, inbound = [], port_writes = [],
                errors_logged = 0\<rparr>"
  have e: "HDLC_escape [0x51, 0x55, 0x4A, 0x44] = [0x51, 0x55, 0x4A, 0x44]"
    by (simp add: HDLC_escape_def FLAG_def ESC_def)
  have h1: "online ?self" by simp
  have h2: "(2 :: int) < int (length (FLAG # HDLC_escape ((\<lambda>d. [0x51, 0x55, 0x4A, 0x44])
      [0x41, 0x42, 0x43 :: byte]) @ [FLAG]))"
    by (simp add: e)
  have r: "snd (process_outgoing (\<lambda>d. [0x51, 0x55, 0x4A, 0x44]) (Written 2) ?self
      [0x41, 0x42, 0x43]) = Inl (IOError 2 6)"
    by (simp add: process_outgoing_def Let_def e)
  from short_write_counts_payload [where ?b64encode = "\<lambda>d. [0x51, 0x55, 0x4A, 0x44]"
      and data = "[0x41, 0x42, 0x43]", OF h1 h2] h1 h2 r
  show ?thesis
    by (simp add: e)
qed

end
